theory Spec2Isabelle
  imports Main
begin

section \<open>Python values used by the three source files\<close>

text \<open>
  A Python \<open>str\<close> is modelled as a \<open>string\<close>; every \<open>char\<close> stands for one code
  point, so \<open>length\<close> is Python's \<open>len\<close> (the model covers code points below 256).
  Python's integers are unbounded: \<open>int\<close>.
\<close>

text \<open>
  The slice \<open>xs[:k]\<close>. A negative \<open>k\<close> counts from the end, and the stop position is
  clipped to the list.
\<close>

definition slice_to :: "'a list \<Rightarrow> int \<Rightarrow> 'a list" where
  "slice_to xs k =
     (if k < 0 then take (nat (int (length xs) + k)) xs else take (nat k) xs)"

section \<open>history.py: the class DialogHistory\<close>

text \<open>
  An entry is the dictionary built by \<open>add_entry\<close>, with its four keys.
\<close>

record entry =
  timestamp :: string
  response :: string
  context' :: string
  thinking_mode :: string

text \<open>
  What \<open>.dialog_history.json\<close> holds when it is opened: no file, a file that cannot
  be opened or parsed (\<open>json.load\<close> raises), or the list that \<open>json.dump\<close> wrote.
  A file holding well-formed JSON of another shape is outside the model.
\<close>

datatype history_file = NoFile | Unparsable | Stored "entry list"

text \<open>
  The object's attributes \<open>max_items\<close> and \<open>history\<close>, together with the file
  \<open>history_file\<close> names and whether opening that file for writing succeeds.
\<close>

record DialogHistory =
  max_items :: int
  history :: "entry list"
  history_file :: history_file
  history_writable :: bool

text \<open>\<open>load_history\<close>: every exception is swallowed and gives the empty list.\<close>

fun load_history :: "history_file \<Rightarrow> entry list" where
  "load_history NoFile = []"
| "load_history Unparsable = []"
| "load_history (Stored es) = es"

text \<open>\<open>__init__\<close>, for the file found on disk.\<close>

definition init_history :: "int \<Rightarrow> history_file \<Rightarrow> bool \<Rightarrow> DialogHistory" where
  "init_history cap f w =
     \<lparr> max_items = cap, history = load_history f, history_file = f, history_writable = w \<rparr>"

text \<open>\<open>save_history\<close>: a failing write is swallowed and leaves the file as it was.\<close>

definition save_history :: "DialogHistory \<Rightarrow> DialogHistory" where
  "save_history h =
     (if history_writable h
      then h\<lparr> history_file := Stored (slice_to (history h) (max_items h)) \<rparr>
      else h)"

text \<open>
  The dictionary literal of \<open>add_entry\<close>. \<open>now\<close> is the value of
  \<open>datetime.now().isoformat()\<close>, read from the clock.
\<close>

definition make_entry :: "string \<Rightarrow> string \<Rightarrow> string \<Rightarrow> string \<Rightarrow> entry" where
  "make_entry now resp ctx mode =
     \<lparr> timestamp = now,
       response = resp,
       context' = (if length ctx > 100 then slice_to ctx 100 @ ''...'' else ctx),
       thinking_mode = mode \<rparr>"

definition add_entry :: "string \<Rightarrow> string \<Rightarrow> string \<Rightarrow> string \<Rightarrow> DialogHistory \<Rightarrow> DialogHistory" where
  "add_entry now resp ctx mode h =
     save_history
       (h\<lparr> history := slice_to (make_entry now resp ctx mode # history h) (max_items h) \<rparr>)"

definition get_recent :: "int \<Rightarrow> DialogHistory \<Rightarrow> entry list" where
  "get_recent count h = slice_to (history h) count"

definition clear :: "DialogHistory \<Rightarrow> DialogHistory" where
  "clear h = save_history (h\<lparr> history := [] \<rparr>)"

text \<open>
  A submission is the clock reading and the three arguments of one \<open>add_entry\<close> call;
  \<open>add_entries\<close> performs the calls in order, the head of the list first.
\<close>

type_synonym submission = "string \<times> string \<times> string \<times> string"

fun entry_of :: "submission \<Rightarrow> entry" where
  "entry_of (now, resp, ctx, mode) = make_entry now resp ctx mode"

fun add_entries :: "DialogHistory \<Rightarrow> submission list \<Rightarrow> DialogHistory" where
  "add_entries h [] = h"
| "add_entries h ((now, resp, ctx, mode) # ss) = add_entries (add_entry now resp ctx mode h) ss"

section \<open>The preference file of dialog.py and dialog-web.py\<close>

text \<open>
  What \<open>.thinking_mode_preference\<close> holds when it is opened for reading: no file, a
  file whose \<open>open\<close> or \<open>read\<close> raises, or its text. \<open>writable\<close> says whether
  \<open>open(pref_file, 'w')\<close> succeeds.
\<close>

datatype file_state = Missing | Unreadable | Contents string

record pref_file =
  stored :: file_state
  writable :: bool

text \<open>
  \<open>str.strip()\<close> removes the characters for which \<open>str.isspace\<close> holds from both ends:
  below 256 these are the code points 9 to 13, 28 to 32, 133 and 160.
\<close>

definition isspace :: "char \<Rightarrow> bool" where
  "isspace c = ((of_char c :: nat) \<in> set [9, 10, 11, 12, 13, 28, 29, 30, 31, 32, 133, 160])"

definition strip :: "string \<Rightarrow> string" where
  "strip s = rev (dropWhile isspace (rev (dropWhile isspace s)))"

text \<open>The list literal of the membership test, in the order of the source.\<close>

definition valid_modes :: "string list" where
  "valid_modes = [''normal'', ''deep'', ''ultra'', ''quick'']"

text \<open>\<open>f.read()\<close> inside the \<open>with open(pref_file, 'r')\<close> block; \<open>None\<close> is an exception.\<close>

fun read_text :: "file_state \<Rightarrow> string option" where
  "read_text Missing = None"
| "read_text Unreadable = None"
| "read_text (Contents s) = Some s"

text \<open>
  The block "Load saved preference" of \<open>show_dialog\<close> (lines 228 to 239), which
  \<open>do_GET\<close> of dialog-web.py repeats statement by statement (lines 29 to 38): the value
  of \<open>default_mode\<close>, respectively \<open>thinking_mode\<close>, after the \<open>try\<close> statement.
\<close>

definition load_thinking_mode :: "pref_file \<Rightarrow> string" where
  "load_thinking_mode p =
     (if stored p \<noteq> Missing
      then (case read_text (stored p) of
              None \<Rightarrow> ''normal''
            | Some text \<Rightarrow>
                (let saved_mode = strip text
                 in if saved_mode \<in> set valid_modes then saved_mode else ''normal''))
      else ''normal'')"

text \<open>
  The \<open>try\<close> statement that writes the mode (in \<open>update_mode_indicator\<close>, in \<open>submit\<close>
  and in the \<open>/submit\<close> branch of \<open>do_GET\<close>): a failing write is swallowed.
\<close>

definition save_thinking_mode :: "string \<Rightarrow> pref_file \<Rightarrow> pref_file" where
  "save_thinking_mode mode p = (if writable p then p\<lparr> stored := Contents mode \<rparr> else p)"

section \<open>The files and the outcome of one process\<close>

record files =
  pref :: pref_file
  hist_file :: history_file
  hist_writable :: bool

text \<open>
  What one run of a front end leaves behind: the arguments of its \<open>print\<close> calls in
  order (each call writes one line when its argument holds no newline), the exit status
  (\<open>None\<close> as long as the process has not exited) and the two files.
\<close>

record outcome =
  stdout :: "string list"
  exit_status :: "int option"
  pref_after :: pref_file
  history_after :: history_file

section \<open>dialog.py: the window\<close>

text \<open>
  The three values \<open>show_dialog\<close> reads from the parsed JSON object, with the defaults
  of \<open>data.get\<close> applied.
\<close>

record request =
  decision_context :: string
  options :: "string list"
  default_action :: string

text \<open>
  The variables of \<open>show_dialog\<close> that its callbacks read and write. Widgets, colours,
  fonts and the window-position file have no part in any property below and are left out.
\<close>

record dialog =
  context_arg :: string
  option_buttons :: "string list"
  recent_history :: "entry list"
  thinking_mode_var :: string
  result_var :: string
  history_obj :: DialogHistory
  pref_on_disk :: pref_file
  printed :: "string list"
  quit_called :: bool

text \<open>
  \<open>update_mode_indicator\<close>: it reads the variable, restyles the label and the frames,
  and writes the preference file.
\<close>

definition update_mode_indicator :: "dialog \<Rightarrow> dialog" where
  "update_mode_indicator d =
     (let mode = thinking_mode_var d
      in d\<lparr> pref_on_disk := save_thinking_mode mode (pref_on_disk d) \<rparr>)"

text \<open>
  \<open>thinking_mode.set(v)\<close>: the write trace registered by
  \<open>thinking_mode.trace('w', update_mode_indicator)\<close> runs after the variable is set.
\<close>

definition thinking_mode_set :: "string \<Rightarrow> dialog \<Rightarrow> dialog" where
  "thinking_mode_set v d = update_mode_indicator (d\<lparr> thinking_mode_var := v \<rparr>)"

text \<open>
  \<open>show_dialog\<close> up to \<open>root.mainloop()\<close>: the history is \<open>DialogHistory()\<close>, the mode
  variable starts at the loaded preference, \<open>update_mode_indicator()\<close> is called once,
  and the response variable starts at the default action.
\<close>

definition open_dialog :: "request \<Rightarrow> files \<Rightarrow> dialog" where
  "open_dialog req env =
     (let history = init_history 10 (hist_file env) (hist_writable env);
          default_mode = load_thinking_mode (pref env)
      in update_mode_indicator
           \<lparr> context_arg = decision_context req,
             option_buttons = options req,
             recent_history = get_recent 5 history,
             thinking_mode_var = default_mode,
             result_var = default_action req,
             history_obj = history,
             pref_on_disk = pref env,
             printed = [],
             quit_called = False \<rparr>)"

text \<open>\<open>submit\<close>; \<open>now\<close> is the clock reading that \<open>add_entry\<close> takes.\<close>

definition submit :: "string \<Rightarrow> dialog \<Rightarrow> dialog" where
  "submit now d =
     (let mode = thinking_mode_var d;
          response = result_var d
      in d\<lparr> pref_on_disk := save_thinking_mode mode (pref_on_disk d),
            history_obj :=
              (if response \<noteq> [] \<and> response \<noteq> ''CANCELLED''
               then add_entry now response (context_arg d) mode (history_obj d)
               else history_obj d),
            printed := printed d @ [response @ ''|||'' @ mode],
            quit_called := True \<rparr>)"

definition cancel :: "dialog \<Rightarrow> dialog" where
  "cancel d = d\<lparr> printed := printed d @ [''CANCELLED''], quit_called := True \<rparr>"

text \<open>
  The four radio buttons of the list \<open>modes\<close>, with the value each one sets; the key
  bindings \<open>q n d u\<close> (and capitals) set the same four constants.
\<close>

datatype mode_button = Quick | Normal | Deep | Ultra

fun mode_value :: "mode_button \<Rightarrow> string" where
  "mode_value Quick = ''quick''"
| "mode_value Normal = ''normal''"
| "mode_value Deep = ''deep''"
| "mode_value Ultra = ''ultra''"

text \<open>
  What the user can do while the window is open: pick the option button with index
  \<open>i\<close> of \<open>options\<close> (by click or digit key), pick entry \<open>i\<close> of the Recent menu, leave
  the entry field holding a text, pick a mode, press Submit (or Return) or Cancel (or
  Escape). A button that does not exist cannot be picked: the event changes nothing.
\<close>

datatype event =
  PickOption nat
| PickRecent nat
| Edit string
| PickMode mode_button
| Submit
| Cancel

fun handle :: "string \<Rightarrow> event \<Rightarrow> dialog \<Rightarrow> dialog" where
  "handle now (PickOption i) d =
     (if i < length (option_buttons d) then d\<lparr> result_var := option_buttons d ! i \<rparr> else d)"
| "handle now (PickRecent i) d =
     (if i < length (recent_history d)
      then d\<lparr> result_var := response (recent_history d ! i) \<rparr> else d)"
| "handle now (Edit text) d = d\<lparr> result_var := text \<rparr>"
| "handle now (PickMode b) d = thinking_mode_set (mode_value b) d"
| "handle now Submit d = submit now d"
| "handle now Cancel d = cancel d"

text \<open>
  The events whose callbacks call \<open>root.quit()\<close>, and the events that set the mode
  variable.
\<close>

fun ends_dialog :: "event \<Rightarrow> bool" where
  "ends_dialog Submit = True"
| "ends_dialog Cancel = True"
| "ends_dialog _ = False"

fun picks_mode :: "event \<Rightarrow> bool" where
  "picks_mode (PickMode b) = True"
| "picks_mode _ = False"

text \<open>
  \<open>root.mainloop()\<close>: events are handled in order until a callback has called
  \<open>root.quit()\<close>. When the events run out first, the window is still open.
\<close>

fun mainloop :: "string \<Rightarrow> dialog \<Rightarrow> event list \<Rightarrow> dialog" where
  "mainloop now d [] = d"
| "mainloop now d (e # es) =
     (let d' = handle now e d in if quit_called d' then d' else mainloop now d' es)"

text \<open>
  The \<open>__main__\<close> block of dialog.py. \<open>json_loads\<close> stands for \<open>json.loads\<close> followed
  by the three \<open>data.get\<close> calls; \<open>None\<close> is its exception, which nothing catches, so
  the interpreter exits with status 1. After \<open>mainloop\<close> returns the script ends: status 0.
\<close>

definition dialog_main ::
  "(string \<Rightarrow> request option) \<Rightarrow> string list \<Rightarrow> string \<Rightarrow> files \<Rightarrow> event list \<Rightarrow> outcome" where
  "dialog_main json_loads argv now env events =
     (if length argv > 1
      then (case json_loads (argv ! 1) of
              None \<Rightarrow>
                \<lparr> stdout = [], exit_status = Some 1,
                  pref_after = pref env, history_after = hist_file env \<rparr>
            | Some req \<Rightarrow>
                (let d = mainloop now (open_dialog req env) events
                 in \<lparr> stdout = printed d,
                      exit_status = (if quit_called d then Some 0 else None),
                      pref_after = pref_on_disk d,
                      history_after = history_file (history_obj d) \<rparr>))
      else \<lparr> stdout = [''ERROR: No input provided''], exit_status = Some 1,
             pref_after = pref env, history_after = hist_file env \<rparr>)"

text \<open>
  The invariant of the open window: the mode variable holds one of the four modes, and the
  preference file is the file found at the start with that mode written to it.
\<close>

definition mode_saved :: "files \<Rightarrow> dialog \<Rightarrow> bool" where
  "mode_saved env d \<longleftrightarrow>
     thinking_mode_var d \<in> set valid_modes
     \<and> pref_on_disk d = save_thinking_mode (thinking_mode_var d) (pref env)"

section \<open>dialog-web.py: the local listener\<close>

text \<open>
  The module has two global variables, \<open>result\<close> and \<open>server\<close>. The state below
  holds the global \<open>result\<close> (\<open>None\<close> at import) and the files of the installation.
  dialog-web.py does not import history.py and names the history file nowhere.
\<close>

record web =
  result_global :: "string option"
  web_pref :: pref_file
  web_history :: history_file

text \<open>
  One request: \<open>self.path\<close>, and the dictionary
  \<open>parse_qs(urlparse(self.path).query)\<close> as a list of keys with their value lists.
\<close>

record http_request =
  path :: string
  query :: "(string \<times> string list) list"

text \<open>\<open>dict.get(key, default)\<close> and the subscript \<open>[0]\<close>, which raises on an empty list.\<close>

definition dict_get :: "('k \<times> 'v) list \<Rightarrow> 'k \<Rightarrow> 'v \<Rightarrow> 'v" where
  "dict_get d k dflt = (case map_of d k of None \<Rightarrow> dflt | Some v \<Rightarrow> v)"

fun first :: "'a list \<Rightarrow> 'a option" where
  "first [] = None"
| "first (x # xs) = Some x"

definition startswith :: "string \<Rightarrow> string \<Rightarrow> bool" where
  "startswith s p = (take (length p) s = p)"

text \<open>
  How a call of \<open>do_GET\<close> ends: it returns, it raises (socketserver reports the error
  and goes on serving), or it reaches \<open>server.shutdown()\<close>.
\<close>

datatype ending = Returns | Raises | CallsShutdown

text \<open>
  \<open>do_GET\<close>. The function has no \<open>global\<close> statement, so its assignments to
  \<open>result\<close> bind a local variable of the call; the first component is that local
  variable when the call ends, the last one the state, whose \<open>result_global\<close> no branch
  assigns. The branch for \<open>/\<close> sends the status line and the header, loads the mode
  (\<open>page_thinking_mode\<close>) and then evaluates the f-string of the page, which reads
  the local variables \<open>options_html\<close> and \<open>default_html\<close> before their assignment
  further down: the call raises, and nothing of the state has changed.
\<close>

definition page_thinking_mode :: "web \<Rightarrow> string" where
  "page_thinking_mode w = load_thinking_mode (web_pref w)"

definition do_GET :: "http_request \<Rightarrow> web \<Rightarrow> string option \<times> ending \<times> web" where
  "do_GET r w =
     (if path r = ''/'' then (None, Raises, w)
      else if startswith (path r) ''/submit'' then
        (case first (dict_get (query r) ''response'' [[]]) of
           None \<Rightarrow> (None, Raises, w)
         | Some resp \<Rightarrow>
             (case first (dict_get (query r) ''mode'' [''normal'']) of
                None \<Rightarrow> (None, Raises, w)
              | Some mode \<Rightarrow>
                  (Some (resp @ ''|||'' @ mode), CallsShutdown,
                   w\<lparr> web_pref := save_thinking_mode mode (web_pref w) \<rparr>)))
      else if path r = ''/cancel'' then (Some ''CANCELLED'', CallsShutdown, w)
      else (None, Returns, w))"

text \<open>
  \<open>server.serve_forever\<close> on the worker thread: requests are handled one at a time, in
  order, until a handler calls \<open>server.shutdown()\<close>. The flag says whether one did.
\<close>

fun serve_forever :: "web \<Rightarrow> http_request list \<Rightarrow> web \<times> bool" where
  "serve_forever w [] = (w, False)"
| "serve_forever w (r # rs) =
     (case do_GET r w of
        (local_result, CallsShutdown, w') \<Rightarrow> (w', True)
      | (local_result, Returns, w') \<Rightarrow> serve_forever w' rs
      | (local_result, Raises, w') \<Rightarrow> serve_forever w' rs)"

text \<open>
  \<open>show_web_dialog\<close>: \<open>server_thread.join()\<close> returns only when the worker thread
  has ended. The handler calls \<open>server.shutdown()\<close> on the worker thread itself, inside
  \<open>serve_forever\<close>, and \<open>shutdown\<close> waits for \<open>serve_forever\<close> to finish; the standard
  library documents that this call deadlocks. \<open>shutdown_returns\<close> is whether the call
  returns all the same, so that every statement after it is part of the model. The value
  is \<open>None\<close> when \<open>join\<close> never returns, else the global \<open>result\<close>.
\<close>

definition show_web_dialog :: "bool \<Rightarrow> web \<Rightarrow> http_request list \<Rightarrow> (string option) option \<times> web" where
  "show_web_dialog shutdown_returns w rs =
     (case serve_forever w rs of
        (w', stopped) \<Rightarrow>
          (if stopped \<and> shutdown_returns then (Some (result_global w'), w') else (None, w')))"

text \<open>
  \<open>if result: print(result)\<close>: the test holds for a string that is not empty, not for
  \<open>None\<close>.
\<close>

fun print_if_truthy :: "string option \<Rightarrow> string list" where
  "print_if_truthy None = []"
| "print_if_truthy (Some s) = (if s \<noteq> [] then [s] else [])"

text \<open>The \<open>__main__\<close> block of dialog-web.py.\<close>

definition web_main :: "bool \<Rightarrow> string list \<Rightarrow> files \<Rightarrow> http_request list \<Rightarrow> outcome" where
  "web_main shutdown_returns argv env rs =
     (if length argv > 1
      then (case show_web_dialog shutdown_returns
                   \<lparr> result_global = None, web_pref = pref env, web_history = hist_file env \<rparr> rs of
              (None, w') \<Rightarrow>
                \<lparr> stdout = [], exit_status = None,
                  pref_after = web_pref w', history_after = web_history w' \<rparr>
            | (Some result, w') \<Rightarrow>
                \<lparr> stdout = print_if_truthy result, exit_status = Some 0,
                  pref_after = web_pref w', history_after = web_history w' \<rparr>)
      else \<lparr> stdout = [''ERROR: No input provided''], exit_status = Some 1,
             pref_after = pref env, history_after = hist_file env \<rparr>)"

section \<open>Properties of the history log\<close>

lemma slice_to_nonneg: "0 \<le> k \<Longrightarrow> slice_to xs k = take (nat k) xs"
  by (simp add: slice_to_def)

lemma save_history_fields:
  "history (save_history h) = history h" "max_items (save_history h) = max_items h"
  "history_writable (save_history h) = history_writable h"
  by (simp_all add: save_history_def)

lemma add_entry_fields:
  "max_items (add_entry now resp ctx mode h) = max_items h"
  "history_writable (add_entry now resp ctx mode h) = history_writable h"
  by (simp_all add: add_entry_def save_history_fields)

lemma add_entry_history:
  "0 \<le> max_items h \<Longrightarrow>
   history (add_entry now resp ctx mode h) =
     take (nat (max_items h)) (make_entry now resp ctx mode # history h)"
  by (simp add: add_entry_def save_history_fields slice_to_nonneg)

lemma add_entry_file:
  "0 \<le> max_items h \<Longrightarrow>
   history_file (add_entry now resp ctx mode h) =
     (if history_writable h
      then Stored (take (nat (max_items h)) (make_entry now resp ctx mode # history h))
      else history_file h)"
  by (simp add: add_entry_def save_history_def slice_to_nonneg)

lemma add_entries_max_items: "max_items (add_entries h ss) = max_items h"
  by (induction h ss rule: add_entries.induct) (simp_all add: add_entry_fields)

lemma take_cons_take: "take n (x # take n ys) = take n (x # ys)"
  by (cases n) simp_all

lemma add_entries_history:
  "0 \<le> max_items h \<Longrightarrow>
   history h = take (nat (max_items h)) (history h) \<Longrightarrow>
   history (add_entries h ss) = take (nat (max_items h)) (rev (map entry_of ss) @ history h)"
proof (induction h ss rule: add_entries.induct)
  case (1 h)
  then show ?case by simp
next
  case (2 h now resp ctx mode ss)
  let ?h' = "add_entry now resp ctx mode h"
  have cap: "max_items ?h' = max_items h" by (simp add: add_entry_fields)
  have hist: "history ?h' = take (nat (max_items h)) (make_entry now resp ctx mode # history h)"
    using "2.prems"(1) by (rule add_entry_history)
  have "history (add_entries ?h' ss) =
          take (nat (max_items ?h')) (rev (map entry_of ss) @ history ?h')"
    using "2.prems"(1) by (intro "2.IH") (simp_all add: cap hist)
  also have "\<dots> = take (nat (max_items h))
                    (rev (map entry_of ss) @ make_entry now resp ctx mode # history h)"
    by (simp add: cap hist take_cons_take min_def)
  finally show ?case by simp
qed

lemma make_entry_context:
  "context' (make_entry now resp ctx mode) =
     (if 100 < length ctx then take 100 ctx @ ''...'' else ctx)"
  by (simp add: make_entry_def slice_to_def)

text \<open>
  C4. With a cap that is not negative: \<open>add_entry\<close> puts the new entry at the front and
  keeps the first \<open>max_items\<close> entries, so the log is never longer than the cap and on
  overflow it is the oldest entries, at the end, that go; the file written holds the same
  log, which is what the next \<open>load_history\<close> returns. Starting from an empty log, after
  any sequence of submissions the log is the submissions' entries, most recent first, cut
  to the cap, and its length is the smaller of the number of submissions and the cap.
\<close>

theorem history_log_capped:
  assumes "0 \<le> cap" and "max_items h = cap" and "max_items h0 = cap" and "history h0 = []"
  shows "history (add_entry now resp ctx mode h) =
           take (nat cap) (make_entry now resp ctx mode # history h)
       \<and> int (length (history (add_entry now resp ctx mode h))) \<le> cap
       \<and> (history_writable h \<longrightarrow>
            load_history (history_file (add_entry now resp ctx mode h)) =
              history (add_entry now resp ctx mode h))
       \<and> history (add_entries h0 ss) = take (nat cap) (rev (map entry_of ss))
       \<and> int (length (history (add_entries h0 ss))) = min (int (length ss)) cap"
proof -
  have a: "history (add_entry now resp ctx mode h) =
             take (nat cap) (make_entry now resp ctx mode # history h)"
    using assms(1,2) add_entry_history [of h now resp ctx mode] by simp
  have b: "int (length (history (add_entry now resp ctx mode h))) \<le> cap"
    using assms(1) by (simp add: a)
  have c: "history_writable h \<longrightarrow>
             load_history (history_file (add_entry now resp ctx mode h)) =
               history (add_entry now resp ctx mode h)"
    using assms(1,2) add_entry_file [of h now resp ctx mode] by (simp add: a)
  have d: "history (add_entries h0 ss) = take (nat cap) (rev (map entry_of ss))"
    using assms(1,3,4) add_entries_history [of h0 ss] by simp
  have e: "int (length (history (add_entries h0 ss))) = min (int (length ss)) cap"
    using assms(1) by (simp add: d)
  from a b c d e show ?thesis by blast
qed

theorem history_log_capped_witness:
  "history (add_entries (init_history 2 NoFile True)
      [(''t1'', ''a'', ''c'', ''quick''), (''t2'', ''b'', ''c'', ''deep''),
       (''t3'', ''d'', ''c'', ''ultra'')]) =
     [make_entry ''t3'' ''d'' ''c'' ''ultra'', make_entry ''t2'' ''b'' ''c'' ''deep'']
   \<and> int (length (history (add_entries (init_history 2 NoFile True)
      [(''t1'', ''a'', ''c'', ''quick''), (''t2'', ''b'', ''c'', ''deep''),
       (''t3'', ''d'', ''c'', ''ultra'')]))) = 2"
  using history_log_capped [of 2 "init_history 2 NoFile True" "init_history 2 NoFile True"
      "[]" "[]" "[]" "[]"
      "[(''t1'', ''a'', ''c'', ''quick''), (''t2'', ''b'', ''c'', ''deep''),
        (''t3'', ''d'', ''c'', ''ultra'')]"]
  by (simp add: init_history_def)

text \<open>
  C5. The entry that \<open>add_entry\<close> puts at the front of a log with a positive cap holds,
  for a context longer than 100 characters, its first 100 characters followed by three
  dots, and any other context unchanged.
\<close>

theorem context_truncated:
  assumes "0 < max_items h"
  shows "history (add_entry now resp ctx mode h) \<noteq> []
       \<and> (100 < length ctx \<longrightarrow>
            context' (hd (history (add_entry now resp ctx mode h))) = take 100 ctx @ ''...'')
       \<and> (length ctx \<le> 100 \<longrightarrow>
            context' (hd (history (add_entry now resp ctx mode h))) = ctx)"
proof -
  obtain n where n: "nat (max_items h) = Suc n"
    using assms by (cases "nat (max_items h)") simp_all
  have "history (add_entry now resp ctx mode h) =
          make_entry now resp ctx mode # take n (history h)"
    using assms add_entry_history [of h now resp ctx mode] by (simp add: n)
  then show ?thesis by (simp add: make_entry_context)
qed

theorem context_truncated_witness:
  "context' (hd (history (add_entry ''t'' ''yes'' (replicate 101 CHR ''x'') ''deep''
      (init_history 10 NoFile True)))) = replicate 100 CHR ''x'' @ ''...''
   \<and> context' (hd (history (add_entry ''t'' ''yes'' ''short'' ''deep''
      (init_history 10 NoFile True)))) = ''short''"
  using context_truncated [of "init_history 10 NoFile True" "''t''" "''yes''"
      "replicate 101 CHR ''x''" "''deep''"]
    context_truncated [of "init_history 10 NoFile True" "''t''" "''yes''" "''short''" "''deep''"]
  by (simp add: init_history_def)

section \<open>Properties of the preference file\<close>

lemma strip_valid_mode: "m \<in> set valid_modes \<Longrightarrow> strip m = m"
  by (auto simp add: valid_modes_def strip_def isspace_def)

lemma load_thinking_mode_valid: "load_thinking_mode p \<in> set valid_modes"
  by (cases "stored p") (simp_all add: load_thinking_mode_def Let_def valid_modes_def)

lemma save_thinking_mode_twice:
  "save_thinking_mode m (save_thinking_mode m' p) = save_thinking_mode m p"
  by (simp add: save_thinking_mode_def)

text \<open>
  C7, as the claim states it, fails for a file that holds a mode followed by a newline:
  the text is not one of the four values, and the load returns \<open>deep\<close>.
\<close>

theorem load_outside_enumeration_counterexample:
  "''deep\<newline>'' \<notin> set valid_modes
   \<and> load_thinking_mode \<lparr> stored = Contents ''deep\<newline>'', writable = True \<rparr> \<noteq> ''normal''"
  by (simp add: load_thinking_mode_def valid_modes_def strip_def isspace_def)

text \<open>
  C7, amended. The load always returns one of the four modes. It returns \<open>normal\<close> for
  a missing file, for a file that cannot be read, and for a text that is outside the
  enumeration once the whitespace at its two ends is removed; otherwise it returns the
  text without that whitespace.
\<close>

theorem load_fails_soft:
  "load_thinking_mode p \<in> set valid_modes
   \<and> (stored p = Missing \<longrightarrow> load_thinking_mode p = ''normal'')
   \<and> (stored p = Unreadable \<longrightarrow> load_thinking_mode p = ''normal'')
   \<and> (\<forall>s. stored p = Contents s \<longrightarrow>
         load_thinking_mode p = (if strip s \<in> set valid_modes then strip s else ''normal''))"
  using load_thinking_mode_valid [of p] by (simp add: load_thinking_mode_def)

theorem load_fails_soft_witness:
  "load_thinking_mode \<lparr> stored = Missing, writable = True \<rparr> = ''normal''
   \<and> load_thinking_mode \<lparr> stored = Unreadable, writable = True \<rparr> = ''normal''
   \<and> load_thinking_mode \<lparr> stored = Contents ''turbo'', writable = True \<rparr> = ''normal''"
  using load_fails_soft [of "\<lparr> stored = Missing, writable = True \<rparr>"]
    load_fails_soft [of "\<lparr> stored = Unreadable, writable = True \<rparr>"]
    load_fails_soft [of "\<lparr> stored = Contents ''turbo'', writable = True \<rparr>"]
  by (simp add: valid_modes_def strip_def isspace_def)

section \<open>Properties of the window\<close>

lemma mode_value_valid: "mode_value b \<in> set valid_modes"
  by (cases b) (simp_all add: valid_modes_def)

lemma handle_keeps_open:
  assumes "\<not> ends_dialog e"
  shows "quit_called (handle now e d) = quit_called d"
    and "printed (handle now e d) = printed d"
    and "history_obj (handle now e d) = history_obj d"
    and "context_arg (handle now e d) = context_arg d"
  using assms
  by (cases e; simp add: thinking_mode_set_def update_mode_indicator_def Let_def)+

lemma handle_keeps_mode:
  assumes "\<not> ends_dialog e" and "\<not> picks_mode e"
  shows "thinking_mode_var (handle now e d) = thinking_mode_var d"
    and "pref_on_disk (handle now e d) = pref_on_disk d"
  using assms by (cases e; simp)+

lemma mainloop_open:
  assumes "\<forall>e\<in>set evs. \<not> ends_dialog e" and "\<not> quit_called d"
  shows "\<not> quit_called (mainloop now d evs)"
    and "printed (mainloop now d evs) = printed d"
    and "history_obj (mainloop now d evs) = history_obj d"
    and "context_arg (mainloop now d evs) = context_arg d"
  using assms
  by (induction evs arbitrary: d; simp add: Let_def handle_keeps_open)+

lemma mainloop_append:
  assumes "\<forall>e\<in>set evs. \<not> ends_dialog e" and "\<not> quit_called d"
  shows "mainloop now d (evs @ es) = mainloop now (mainloop now d evs) es"
  using assms by (induction evs arbitrary: d) (simp_all add: Let_def handle_keeps_open)

lemma mainloop_keeps_mode:
  assumes "\<forall>e\<in>set evs. \<not> ends_dialog e \<and> \<not> picks_mode e"
  shows "thinking_mode_var (mainloop now d evs) = thinking_mode_var d"
    and "pref_on_disk (mainloop now d evs) = pref_on_disk d"
  using assms
  by (induction evs arbitrary: d; simp add: Let_def handle_keeps_mode handle_keeps_open)+

lemma mainloop_ends:
  assumes "\<forall>e\<in>set evs. \<not> ends_dialog e" and "\<not> quit_called d" and "ends_dialog e"
  shows "mainloop now d (evs @ e # rest) = handle now e (mainloop now d evs)"
proof -
  have "quit_called (handle now e (mainloop now d evs))"
    using assms(3) by (cases e) (simp_all add: submit_def cancel_def Let_def)
  then show ?thesis
    using assms(1,2) by (simp add: mainloop_append Let_def)
qed

lemma open_dialog_fields:
  "thinking_mode_var (open_dialog req env) = load_thinking_mode (pref env)"
  "pref_on_disk (open_dialog req env) =
     save_thinking_mode (load_thinking_mode (pref env)) (pref env)"
  "result_var (open_dialog req env) = default_action req"
  "context_arg (open_dialog req env) = decision_context req"
  "option_buttons (open_dialog req env) = options req"
  "history_obj (open_dialog req env) = init_history 10 (hist_file env) (hist_writable env)"
  "printed (open_dialog req env) = []"
  "quit_called (open_dialog req env) = False"
  by (simp_all add: open_dialog_def update_mode_indicator_def Let_def)

lemma mode_saved_open: "mode_saved env (open_dialog req env)"
  by (simp add: mode_saved_def open_dialog_fields load_thinking_mode_valid)

lemma mode_saved_handle: "mode_saved env d \<Longrightarrow> mode_saved env (handle now e d)"
  by (cases e)
    (simp_all add: mode_saved_def thinking_mode_set_def update_mode_indicator_def submit_def
      cancel_def Let_def save_thinking_mode_twice mode_value_valid)

lemma mode_saved_mainloop: "mode_saved env d \<Longrightarrow> mode_saved env (mainloop now d evs)"
  by (induction evs arbitrary: d) (simp_all add: Let_def mode_saved_handle)

lemma dialog_main_run:
  assumes "1 < length argv" and "json_loads (argv ! 1) = Some req"
  shows "dialog_main json_loads argv now env events =
     (let d = mainloop now (open_dialog req env) events
      in \<lparr> stdout = printed d,
           exit_status = (if quit_called d then Some 0 else None),
           pref_after = pref_on_disk d,
           history_after = history_file (history_obj d) \<rparr>)"
  using assms by (simp add: dialog_main_def)

text \<open>
  The window variant on Submit: one line, the response variable, the separator and the
  mode variable, which is one of the four modes; the process exits with status 0.
\<close>

lemma dialog_submit_outcome:
  assumes "1 < length argv" and "json_loads (argv ! 1) = Some req"
    and "\<forall>e\<in>set evs. \<not> ends_dialog e"
    and "d = mainloop now (open_dialog req env) evs"
  shows "stdout (dialog_main json_loads argv now env (evs @ Submit # rest)) =
           [result_var d @ ''|||'' @ thinking_mode_var d]"
    and "thinking_mode_var d \<in> set valid_modes"
    and "exit_status (dialog_main json_loads argv now env (evs @ Submit # rest)) = Some 0"
proof -
  have run: "mainloop now (open_dialog req env) (evs @ Submit # rest) = submit now d"
    using assms(3,4) by (simp add: mainloop_ends open_dialog_fields)
  have pr: "printed d = []"
    using assms(3,4) by (simp add: mainloop_open open_dialog_fields)
  show "stdout (dialog_main json_loads argv now env (evs @ Submit # rest)) =
           [result_var d @ ''|||'' @ thinking_mode_var d]"
    using assms(1,2) by (simp add: dialog_main_run run pr submit_def Let_def)
  show "thinking_mode_var d \<in> set valid_modes"
    using mode_saved_mainloop [OF mode_saved_open] assms(4)
    by (simp add: mode_saved_def)
  show "exit_status (dialog_main json_loads argv now env (evs @ Submit # rest)) = Some 0"
    using assms(1,2) by (simp add: dialog_main_run run submit_def Let_def)
qed

lemma dialog_submit_fix_the_bug:
  assumes "1 < length argv" and "json_loads (argv ! 1) = Some req"
  shows "stdout (dialog_main json_loads argv now env [Edit ''fix the bug'', PickMode Deep, Submit])
           = [''fix the bug|||deep'']"
  using assms
  by (simp add: dialog_main_run Let_def open_dialog_fields thinking_mode_set_def
      update_mode_indicator_def submit_def)

text \<open>
  The window variant on Cancel: the one line \<open>CANCELLED\<close>, the history file as it was
  found, exit status 0.
\<close>

lemma dialog_cancel_outcome:
  assumes "1 < length argv" and "json_loads (argv ! 1) = Some req"
    and "\<forall>e\<in>set evs. \<not> ends_dialog e"
  shows "stdout (dialog_main json_loads argv now env (evs @ Cancel # rest)) = [''CANCELLED'']"
    and "history_after (dialog_main json_loads argv now env (evs @ Cancel # rest)) = hist_file env"
    and "exit_status (dialog_main json_loads argv now env (evs @ Cancel # rest)) = Some 0"
proof -
  let ?d = "mainloop now (open_dialog req env) evs"
  have run: "mainloop now (open_dialog req env) (evs @ Cancel # rest) = cancel ?d"
    using assms(3) by (simp add: mainloop_ends open_dialog_fields)
  have keep: "printed ?d = []"
    "history_obj ?d = init_history 10 (hist_file env) (hist_writable env)"
    using assms(3) by (simp_all add: mainloop_open open_dialog_fields)
  show "stdout (dialog_main json_loads argv now env (evs @ Cancel # rest)) = [''CANCELLED'']"
    using assms(1,2) by (simp add: dialog_main_run run keep cancel_def)
  show "history_after (dialog_main json_loads argv now env (evs @ Cancel # rest)) = hist_file env"
    using assms(1,2) by (simp add: dialog_main_run run keep cancel_def init_history_def)
  show "exit_status (dialog_main json_loads argv now env (evs @ Cancel # rest)) = Some 0"
    using assms(1,2) by (simp add: dialog_main_run run cancel_def)
qed

lemma dialog_usage_error:
  "length argv \<le> 1 \<Longrightarrow>
   dialog_main json_loads argv now env events =
     \<lparr> stdout = [''ERROR: No input provided''], exit_status = Some 1,
       pref_after = pref env, history_after = hist_file env \<rparr>"
  by (simp add: dialog_main_def)

section \<open>Properties of the listener\<close>

lemma do_GET_keeps:
  "result_global (snd (snd (do_GET r w))) = result_global w"
  "web_history (snd (snd (do_GET r w))) = web_history w"
  by (simp_all add: do_GET_def split: option.splits)

lemma serve_forever_keeps:
  "result_global (fst (serve_forever w rs)) = result_global w
   \<and> web_history (fst (serve_forever w rs)) = web_history w"
proof (induction rs arbitrary: w)
  case Nil
  show ?case by simp
next
  case (Cons r rs)
  obtain l e w' where g: "do_GET r w = (l, e, w')"
    by (cases "do_GET r w") auto
  have k: "result_global w' = result_global w" "web_history w' = web_history w"
    using do_GET_keeps [of r w] by (simp_all add: g)
  show ?case
    using Cons.IH [of w'] by (cases e) (simp_all add: g k)
qed

text \<open>
  Whatever requests arrive, and whether or not \<open>shutdown\<close> returns, the web variant
  with an argument prints nothing and leaves the history file as it found it.
\<close>

lemma web_main_silent:
  assumes "1 < length argv"
  shows "stdout (web_main b argv env rs) = []"
    and "history_after (web_main b argv env rs) = hist_file env"
proof -
  let ?w = "\<lparr> result_global = None, web_pref = pref env, web_history = hist_file env \<rparr>"
  obtain w' stopped where s: "serve_forever ?w rs = (w', stopped)"
    by (cases "serve_forever ?w rs") auto
  have k: "result_global w' = None" "web_history w' = hist_file env"
    using serve_forever_keeps [of ?w rs] by (simp_all add: s)
  show "stdout (web_main b argv env rs) = []"
    using assms by (simp add: web_main_def show_web_dialog_def s k)
  show "history_after (web_main b argv env rs) = hist_file env"
    using assms by (simp add: web_main_def show_web_dialog_def s k)
qed

lemma web_usage_error:
  "length argv \<le> 1 \<Longrightarrow>
   web_main b argv env rs =
     \<lparr> stdout = [''ERROR: No input provided''], exit_status = Some 1,
       pref_after = pref env, history_after = hist_file env \<rparr>"
  by (simp add: web_main_def)

lemma startswith_submit_not_root: "startswith p ''/submit'' \<Longrightarrow> p \<noteq> ''/''"
  by (auto simp add: startswith_def)

lemma do_GET_submit:
  assumes "startswith (path r) ''/submit''"
    and "dict_get (query r) ''response'' [[]] = resp # xs"
    and "dict_get (query r) ''mode'' [''normal''] = mode # ys"
  shows "do_GET r w =
     (Some (resp @ ''|||'' @ mode), CallsShutdown,
      w\<lparr> web_pref := save_thinking_mode mode (web_pref w) \<rparr>)"
  using assms startswith_submit_not_root [of "path r"] by (simp add: do_GET_def)

lemma web_main_submit_exit:
  assumes "1 < length argv" and "startswith (path r) ''/submit''"
    and "dict_get (query r) ''response'' [[]] = resp # xs"
    and "dict_get (query r) ''mode'' [''normal''] = mode # ys"
  shows "pref_after (web_main b argv env (r # rs)) = save_thinking_mode mode (pref env)"
    and "exit_status (web_main b argv env (r # rs)) = (if b then Some 0 else None)"
  using assms do_GET_submit [OF assms(2,3,4)]
  by (simp_all add: web_main_def show_web_dialog_def)

text \<open>
  C1: the web variant, at the submission of the spec. The handler's local variable
  holds \<open>fix the bug|||deep\<close>, the global \<open>result\<close> that the main block prints stays
  \<open>None\<close>, and standard output stays empty, whether or not \<open>shutdown\<close> returns.
\<close>

theorem web_submit_prints_nothing:
  "fst (do_GET \<lparr> path = ''/submit?response=fix%20the%20bug&mode=deep'',
                  query = [(''response'', [''fix the bug'']), (''mode'', [''deep''])] \<rparr> w)
     = Some ''fix the bug|||deep''
   \<and> stdout (web_main b [''dialog-web.py'', ''{}''] env
        [\<lparr> path = ''/submit?response=fix%20the%20bug&mode=deep'',
           query = [(''response'', [''fix the bug'']), (''mode'', [''deep''])] \<rparr>]) = []"
  by (simp add: web_main_silent) (simp add: do_GET_def startswith_def dict_get_def)

text \<open>
  C2: the web variant on \<open>/cancel\<close>. The handler's local variable holds \<open>CANCELLED\<close>,
  the history file is untouched, and standard output stays empty.
\<close>

theorem web_cancel_prints_nothing:
  "fst (do_GET \<lparr> path = ''/cancel'', query = [] \<rparr> w) = Some ''CANCELLED''
   \<and> stdout (web_main b [''dialog-web.py'', ''{}''] env [\<lparr> path = ''/cancel'', query = [] \<rparr>]) = []
   \<and> history_after (web_main b [''dialog-web.py'', ''{}''] env [\<lparr> path = ''/cancel'', query = [] \<rparr>])
       = hist_file env"
  by (simp add: web_main_silent) (simp add: do_GET_def startswith_def)

text \<open>
  C8: the web variant takes the mode from the query as it comes. For \<open>mode=turbo\<close> the
  handler builds \<open>x|||turbo\<close> and writes \<open>turbo\<close> to the preference file; no line
  reaches standard output.
\<close>

theorem web_submit_mode_unchecked:
  "''turbo'' \<notin> set valid_modes
   \<and> do_GET \<lparr> path = ''/submit?response=x&mode=turbo'',
               query = [(''response'', [''x'']), (''mode'', [''turbo''])] \<rparr>
        \<lparr> result_global = None, web_pref = \<lparr> stored = Missing, writable = True \<rparr>,
          web_history = NoFile \<rparr>
     = (Some ''x|||turbo'', CallsShutdown,
        \<lparr> result_global = None, web_pref = \<lparr> stored = Contents ''turbo'', writable = True \<rparr>,
          web_history = NoFile \<rparr>)
   \<and> stdout (web_main b [''dialog-web.py'', ''{}'']
        \<lparr> pref = \<lparr> stored = Missing, writable = True \<rparr>, hist_file = NoFile,
          hist_writable = True \<rparr>
        [\<lparr> path = ''/submit?response=x&mode=turbo'',
           query = [(''response'', [''x'']), (''mode'', [''turbo''])] \<rparr>]) = []"
  by (simp add: web_main_silent)
    (simp add: do_GET_def startswith_def dict_get_def valid_modes_def save_thinking_mode_def)

text \<open>
  C9: the web variant after \<open>/cancel\<close> and after \<open>/submit\<close>, with \<open>shutdown\<close> blocking
  as the library documents for a call from the serving thread: the process has no exit
  status. Had the call returned, the status would be 0.
\<close>

theorem web_process_never_exits:
  "exit_status (web_main False [''dialog-web.py'', ''{}''] env
      [\<lparr> path = ''/cancel'', query = [] \<rparr>]) = None
   \<and> exit_status (web_main False [''dialog-web.py'', ''{}''] env
      [\<lparr> path = ''/submit?response=ok&mode=deep'',
         query = [(''response'', [''ok'']), (''mode'', [''deep''])] \<rparr>]) = None
   \<and> exit_status (web_main True [''dialog-web.py'', ''{}''] env
      [\<lparr> path = ''/cancel'', query = [] \<rparr>]) = Some 0"
  by (simp add: web_main_def show_web_dialog_def do_GET_def startswith_def dict_get_def)

section \<open>Submitting, and changing the mode\<close>

text \<open>
  C3, as the claim states it, fails in the web variant: a response that is neither empty
  nor \<open>CANCELLED\<close> is submitted, and the history file holds no record afterwards,
  whether or not \<open>shutdown\<close> returns.
\<close>

theorem web_submit_history_counterexample:
  "''fix the bug'' \<noteq> [] \<and> ''fix the bug'' \<noteq> ''CANCELLED''
   \<and> history_after (web_main True [''dialog-web.py'', ''{}'']
        \<lparr> pref = \<lparr> stored = Missing, writable = True \<rparr>, hist_file = Stored [],
          hist_writable = True \<rparr>
        [\<lparr> path = ''/submit?response=fix%20the%20bug&mode=deep'',
           query = [(''response'', [''fix the bug'']), (''mode'', [''deep''])] \<rparr>]) = Stored []
   \<and> history_after (web_main False [''dialog-web.py'', ''{}'']
        \<lparr> pref = \<lparr> stored = Missing, writable = True \<rparr>, hist_file = Stored [],
          hist_writable = True \<rparr>
        [\<lparr> path = ''/submit?response=fix%20the%20bug&mode=deep'',
           query = [(''response'', [''fix the bug'']), (''mode'', [''deep''])] \<rparr>]) = Stored []"
  by (simp add: web_main_def show_web_dialog_def do_GET_def startswith_def dict_get_def)

text \<open>
  C3, amended. In both variants a submit writes the selected mode to the preference file
  (a failing write is swallowed). In the window variant the history file then holds the
  new record in front of the loaded log, cut to 10 entries, exactly when the response is
  neither empty nor \<open>CANCELLED\<close> (and the file can be written); otherwise it is as it
  was found. The web variant never changes the history file.
\<close>

theorem submit_persists:
  assumes "1 < length argv" and "json_loads (argv ! 1) = Some req"
    and "\<forall>e\<in>set evs. \<not> ends_dialog e"
    and "d = mainloop now (open_dialog req env) evs"
    and "1 < length wargv" and "startswith (path r) ''/submit''"
    and "dict_get (query r) ''response'' [[]] = resp # xs"
    and "dict_get (query r) ''mode'' [''normal''] = mode # ys"
  shows "pref_after (dialog_main json_loads argv now env (evs @ Submit # rest)) =
           save_thinking_mode (thinking_mode_var d) (pref env)
       \<and> history_after (dialog_main json_loads argv now env (evs @ Submit # rest)) =
           (if result_var d \<noteq> [] \<and> result_var d \<noteq> ''CANCELLED'' \<and> hist_writable env
            then Stored (take 10 (make_entry now (result_var d) (decision_context req)
                                    (thinking_mode_var d) # load_history (hist_file env)))
            else hist_file env)
       \<and> pref_after (web_main b wargv env (r # rs)) = save_thinking_mode mode (pref env)
       \<and> history_after (web_main b wargv env (r # rs)) = hist_file env"
proof -
  let ?out = "dialog_main json_loads argv now env (evs @ Submit # rest)"
  have run: "mainloop now (open_dialog req env) (evs @ Submit # rest) = submit now d"
    using assms(3,4) by (simp add: mainloop_ends open_dialog_fields)
  have keep: "history_obj d = init_history 10 (hist_file env) (hist_writable env)"
    "context_arg d = decision_context req"
    using assms(3,4) by (simp_all add: mainloop_open open_dialog_fields)
  have saved: "pref_on_disk d = save_thinking_mode (thinking_mode_var d) (pref env)"
    using mode_saved_mainloop [OF mode_saved_open] assms(4) by (simp add: mode_saved_def)
  have p: "pref_after ?out = save_thinking_mode (thinking_mode_var d) (pref env)"
    using assms(1,2)
    by (simp add: dialog_main_run run submit_def Let_def saved save_thinking_mode_twice)
  have h: "history_after ?out =
      (if result_var d \<noteq> [] \<and> result_var d \<noteq> ''CANCELLED'' \<and> hist_writable env
       then Stored (take 10 (make_entry now (result_var d) (decision_context req)
                               (thinking_mode_var d) # load_history (hist_file env)))
       else hist_file env)"
    using assms(1,2)
    by (simp add: dialog_main_run run submit_def Let_def keep add_entry_file init_history_def)
  have wp: "pref_after (web_main b wargv env (r # rs)) = save_thinking_mode mode (pref env)"
    using assms(5,6,7,8) by (rule web_main_submit_exit)
  have wh: "history_after (web_main b wargv env (r # rs)) = hist_file env"
    using assms(5) by (rule web_main_silent)
  from p h wp wh show ?thesis by blast
qed

theorem submit_persists_witness:
  "pref_after (dialog_main (\<lambda>s. Some \<lparr> decision_context = ''Which fix?'', options = [],
        default_action = [] \<rparr>) [''dialog.py'', ''{}''] ''t''
      \<lparr> pref = \<lparr> stored = Missing, writable = True \<rparr>, hist_file = NoFile,
        hist_writable = True \<rparr>
      ([Edit ''fix the bug'', PickMode Deep] @ Submit # []))
     = \<lparr> stored = Contents ''deep'', writable = True \<rparr>
   \<and> history_after (dialog_main (\<lambda>s. Some \<lparr> decision_context = ''Which fix?'', options = [],
        default_action = [] \<rparr>) [''dialog.py'', ''{}''] ''t''
      \<lparr> pref = \<lparr> stored = Missing, writable = True \<rparr>, hist_file = NoFile,
        hist_writable = True \<rparr>
      ([Edit ''fix the bug'', PickMode Deep] @ Submit # []))
     = Stored [make_entry ''t'' ''fix the bug'' ''Which fix?'' ''deep'']
   \<and> pref_after (web_main True [''dialog-web.py'', ''{}'']
      \<lparr> pref = \<lparr> stored = Missing, writable = True \<rparr>, hist_file = NoFile,
        hist_writable = True \<rparr>
      (\<lparr> path = ''/submit?response=fix%20the%20bug&mode=deep'',
         query = [(''response'', [''fix the bug'']), (''mode'', [''deep''])] \<rparr> # []))
     = \<lparr> stored = Contents ''deep'', writable = True \<rparr>
   \<and> history_after (web_main True [''dialog-web.py'', ''{}'']
      \<lparr> pref = \<lparr> stored = Missing, writable = True \<rparr>, hist_file = NoFile,
        hist_writable = True \<rparr>
      (\<lparr> path = ''/submit?response=fix%20the%20bug&mode=deep'',
         query = [(''response'', [''fix the bug'']), (''mode'', [''deep''])] \<rparr> # []))
     = NoFile"
  using submit_persists [of "[''dialog.py'', ''{}'']"
      "\<lambda>s. Some \<lparr> decision_context = ''Which fix?'', options = [], default_action = [] \<rparr>"
      "\<lparr> decision_context = ''Which fix?'', options = [], default_action = [] \<rparr>"
      "[Edit ''fix the bug'', PickMode Deep]"
      "mainloop ''t'' (open_dialog \<lparr> decision_context = ''Which fix?'', options = [],
          default_action = [] \<rparr> \<lparr> pref = \<lparr> stored = Missing, writable = True \<rparr>,
          hist_file = NoFile, hist_writable = True \<rparr>) [Edit ''fix the bug'', PickMode Deep]"
      "''t''"
      "\<lparr> pref = \<lparr> stored = Missing, writable = True \<rparr>, hist_file = NoFile,
         hist_writable = True \<rparr>"
      "[''dialog-web.py'', ''{}'']"
      "\<lparr> path = ''/submit?response=fix%20the%20bug&mode=deep'',
         query = [(''response'', [''fix the bug'']), (''mode'', [''deep''])] \<rparr>"
      "''fix the bug''" "[]" "''deep''" "[]" "[]" True "[]"]
  by (simp add: startswith_def dict_get_def open_dialog_fields thinking_mode_set_def
      update_mode_indicator_def save_thinking_mode_def Let_def)

text \<open>
  C10. In the window variant the first render writes the loaded mode to the preference
  file, every pick of a mode writes the picked mode at once, and after a run in which
  the last pick was \<open>b\<close> and the dialog was then cancelled the preference file is the
  one found at the start with the mode of \<open>b\<close> written to it; when the file can be
  written it holds exactly that mode.
\<close>

theorem mode_change_persisted:
  assumes "1 < length argv" and "json_loads (argv ! 1) = Some req"
    and "\<forall>e\<in>set evs. \<not> ends_dialog e"
    and "\<forall>e\<in>set evs'. \<not> ends_dialog e \<and> \<not> picks_mode e"
  shows "pref_on_disk (open_dialog req env) =
           save_thinking_mode (load_thinking_mode (pref env)) (pref env)
       \<and> pref_on_disk (handle now (PickMode b) d) =
           save_thinking_mode (mode_value b) (pref_on_disk d)
       \<and> pref_after (dialog_main json_loads argv now env (evs @ PickMode b # evs' @ Cancel # rest))
           = save_thinking_mode (mode_value b) (pref env)
       \<and> (writable (pref env) \<longrightarrow>
            stored (pref_after
              (dialog_main json_loads argv now env (evs @ PickMode b # evs' @ Cancel # rest)))
              = Contents (mode_value b))"
proof -
  let ?d0 = "open_dialog req env"
  let ?d1 = "mainloop now ?d0 evs"
  let ?d2 = "thinking_mode_set (mode_value b) ?d1"
  let ?d3 = "mainloop now ?d2 evs'"
  have open1: "\<not> quit_called ?d1"
    using assms(3) by (simp add: mainloop_open open_dialog_fields)
  have open2: "\<not> quit_called ?d2"
    using open1 by (simp add: thinking_mode_set_def update_mode_indicator_def Let_def)
  have quiet: "\<forall>e\<in>set evs'. \<not> ends_dialog e"
    using assms(4) by simp
  have "mainloop now ?d0 (evs @ PickMode b # evs' @ Cancel # rest) =
          mainloop now ?d1 (PickMode b # evs' @ Cancel # rest)"
    using assms(3) by (simp add: mainloop_append open_dialog_fields)
  also have "\<dots> = mainloop now ?d2 (evs' @ Cancel # rest)"
    using open2 by (simp add: Let_def)
  also have "\<dots> = cancel ?d3"
    using quiet open2 by (simp add: mainloop_ends)
  finally have run:
    "mainloop now ?d0 (evs @ PickMode b # evs' @ Cancel # rest) = cancel ?d3" .
  have "pref_on_disk ?d1 = save_thinking_mode (thinking_mode_var ?d1) (pref env)"
    using mode_saved_mainloop [OF mode_saved_open] by (simp add: mode_saved_def)
  then have p2: "pref_on_disk ?d2 = save_thinking_mode (mode_value b) (pref env)"
    by (simp add: thinking_mode_set_def update_mode_indicator_def Let_def
        save_thinking_mode_twice)
  have p3: "pref_on_disk ?d3 = save_thinking_mode (mode_value b) (pref env)"
    using assms(4) by (simp add: mainloop_keeps_mode p2)
  have a: "pref_on_disk (open_dialog req env) =
             save_thinking_mode (load_thinking_mode (pref env)) (pref env)"
    by (simp add: open_dialog_fields)
  have c: "pref_on_disk (handle now (PickMode b) d) =
             save_thinking_mode (mode_value b) (pref_on_disk d)"
    by (simp add: thinking_mode_set_def update_mode_indicator_def Let_def)
  have e: "pref_after (dialog_main json_loads argv now env
              (evs @ PickMode b # evs' @ Cancel # rest))
             = save_thinking_mode (mode_value b) (pref env)"
    using assms(1,2) by (simp add: dialog_main_run run cancel_def p3)
  have f: "writable (pref env) \<longrightarrow>
             stored (pref_after (dialog_main json_loads argv now env
               (evs @ PickMode b # evs' @ Cancel # rest))) = Contents (mode_value b)"
    by (simp add: e save_thinking_mode_def)
  from a c e f show ?thesis by blast
qed

theorem mode_change_persisted_witness:
  "pref_after (dialog_main (\<lambda>s. Some \<lparr> decision_context = ''Which fix?'', options = [''A'', ''B''],
        default_action = ''proceed'' \<rparr>) [''dialog.py'', ''{}''] ''t''
      \<lparr> pref = \<lparr> stored = Contents ''quick'', writable = True \<rparr>, hist_file = NoFile,
        hist_writable = True \<rparr>
      ([PickOption 0, PickMode Deep] @ PickMode Ultra # [Edit ''no''] @ Cancel # []))
     = \<lparr> stored = Contents ''ultra'', writable = True \<rparr>"
  using mode_change_persisted [of "[''dialog.py'', ''{}'']"
      "\<lambda>s. Some \<lparr> decision_context = ''Which fix?'', options = [''A'', ''B''],
         default_action = ''proceed'' \<rparr>"
      "\<lparr> decision_context = ''Which fix?'', options = [''A'', ''B''],
         default_action = ''proceed'' \<rparr>"
      "[PickOption 0, PickMode Deep]" "[Edit ''no'']"
      "\<lparr> pref = \<lparr> stored = Contents ''quick'', writable = True \<rparr>, hist_file = NoFile,
         hist_writable = True \<rparr>"
      "''t''" Ultra "open_dialog \<lparr> decision_context = ''Which fix?'', options = [''A'', ''B''],
         default_action = ''proceed'' \<rparr> \<lparr> pref = \<lparr> stored = Contents ''quick'', writable = True \<rparr>,
         hist_file = NoFile, hist_writable = True \<rparr>" "[]"]
  by (simp add: save_thinking_mode_def)

text \<open>
  C6. When the write succeeds, loading after saving one of the four modes returns that
  mode: the load block itself, the mode variable of the next window, and the mode the
  next page of the web variant loads.
\<close>

theorem save_then_load:
  assumes "m \<in> set valid_modes" and "writable p"
  shows "load_thinking_mode (save_thinking_mode m p) = m
       \<and> thinking_mode_var
            (open_dialog req \<lparr> pref = save_thinking_mode m p, hist_file = f, hist_writable = hw \<rparr>)
           = m
       \<and> page_thinking_mode
            \<lparr> result_global = g, web_pref = save_thinking_mode m p, web_history = f \<rparr> = m"
proof -
  have "load_thinking_mode (save_thinking_mode m p) = m"
    using assms
    by (simp add: load_thinking_mode_def save_thinking_mode_def strip_valid_mode)
  then show ?thesis
    by (simp add: open_dialog_fields page_thinking_mode_def)
qed

theorem save_then_load_witness:
  "load_thinking_mode (save_thinking_mode ''ultra'' \<lparr> stored = Contents ''quick'', writable = True \<rparr>)
     = ''ultra''"
  using save_then_load [of "''ultra''" "\<lparr> stored = Contents ''quick'', writable = True \<rparr>"]
  by (simp add: valid_modes_def)

end
